theory Spec2Isabelle
  imports Main
begin

section \<open>Ruby values, identifiers and exceptions\<close>

text \<open>
  The translators of \<^verbatim>\<open>ext/nmatrix/math/util.h\<close> take a Ruby \<^verbatim>\<open>VALUE\<close> and compare the
  identifier it converts to against a fixed vocabulary. The values that matter are the
  three special constants, symbols, strings, small integers, and any other object, of which
  only the result of its implicit string conversion (\<^verbatim>\<open>to_str\<close>, if it has one) is kept.
\<close>

datatype VALUE =
    Qfalse
  | Qtrue
  | Qnil
  | T_SYMBOL string
  | T_STRING string
  | T_FIXNUM int
  | T_OBJECT "string option"

text \<open>
  An \<^verbatim>\<open>ID\<close> is the interned name: two names have the same \<^verbatim>\<open>ID\<close> exactly when they are the
  same string, so the name itself stands for it.
\<close>

type_synonym ID = string

definition rb_intern :: "string \<Rightarrow> ID" where
  "rb_intern name = name"

datatype rb_error =
    rb_eArgError string
  | rb_eTypeError

text \<open>
  \<^verbatim>\<open>rb_to_id\<close> belongs to the Ruby interpreter (1.9 and later), not to this library. A
  symbol gives its identifier, a string is interned, an object with an implicit string
  conversion is converted and interned, and everything else (among them \<^verbatim>\<open>false\<close>,
  \<^verbatim>\<open>true\<close>, \<^verbatim>\<open>nil\<close> and integers) raises \<^verbatim>\<open>TypeError\<close>.
\<close>

fun rb_to_id :: "VALUE \<Rightarrow> rb_error + ID" where
  "rb_to_id (T_SYMBOL name) = Inr (rb_intern name)"
| "rb_to_id (T_STRING name) = Inr (rb_intern name)"
| "rb_to_id (T_OBJECT (Some name)) = Inr (rb_intern name)"
| "rb_to_id (T_OBJECT None) = Inl rb_eTypeError"
| "rb_to_id Qfalse = Inl rb_eTypeError"
| "rb_to_id Qtrue = Inl rb_eTypeError"
| "rb_to_id Qnil = Inl rb_eTypeError"
| "rb_to_id (T_FIXNUM n) = Inl rb_eTypeError"

text \<open>
  Modelled from the spec: the identifiers \<^verbatim>\<open>nm_rb_no_transpose\<close>, \<^verbatim>\<open>nm_rb_transpose\<close>,
  \<^verbatim>\<open>nm_rb_complex_conjugate\<close>, \<^verbatim>\<open>nm_rb_left\<close>, \<^verbatim>\<open>nm_rb_right\<close>, \<^verbatim>\<open>nm_rb_upper\<close>,
  \<^verbatim>\<open>nm_rb_lower\<close> and \<^verbatim>\<open>nm_rb_unit\<close> are declared and initialised outside the two headers;
  each is the interned token that the comment above its translator names.
\<close>

definition nm_rb_no_transpose :: ID where
  "nm_rb_no_transpose = rb_intern ''no_transpose''"

definition nm_rb_transpose :: ID where
  "nm_rb_transpose = rb_intern ''transpose''"

definition nm_rb_complex_conjugate :: ID where
  "nm_rb_complex_conjugate = rb_intern ''complex_conjugate''"

definition nm_rb_left :: ID where
  "nm_rb_left = rb_intern ''left''"

definition nm_rb_right :: ID where
  "nm_rb_right = rb_intern ''right''"

definition nm_rb_upper :: ID where
  "nm_rb_upper = rb_intern ''upper''"

definition nm_rb_lower :: ID where
  "nm_rb_lower = rb_intern ''lower''"

definition nm_rb_unit :: ID where
  "nm_rb_unit = rb_intern ''unit''"

section \<open>The CBLAS enumerations\<close>

datatype CBLAS_ORDER = CblasRowMajor | CblasColMajor

datatype CBLAS_TRANSPOSE = CblasNoTrans | CblasTrans | CblasConjTrans

datatype CBLAS_UPLO = CblasUpper | CblasLower

datatype CBLAS_DIAG = CblasNonUnit | CblasUnit

datatype CBLAS_SIDE = CblasLeft | CblasRight

text \<open>
  The numeric values of the storage orders, as the comment of \<^verbatim>\<open>blas_order_sym\<close> gives
  them: 101 for row-major, 102 for column-major.
\<close>

fun CBLAS_ORDER_value :: "CBLAS_ORDER \<Rightarrow> int" where
  "CBLAS_ORDER_value CblasRowMajor = 101"
| "CBLAS_ORDER_value CblasColMajor = 102"

section \<open>Control flow of a translator body\<close>

text \<open>
  A statement returns from the function, raises, or lets control pass on to the next
  statement. \<^verbatim>\<open>rb_raise\<close> does not return to its caller.
\<close>

datatype 'a flow = Return 'a | Raise rb_error | Next

definition rb_raise :: "(string \<Rightarrow> rb_error) \<Rightarrow> string \<Rightarrow> 'a flow" where
  "rb_raise cls msg = Raise (cls msg)"

text \<open>A condition is an expression that may itself raise, inside \<^verbatim>\<open>rb_to_id\<close>.\<close>

definition is_value :: "VALUE \<Rightarrow> VALUE \<Rightarrow> rb_error + bool" where
  "is_value op v = Inr (op = v)"

definition is_id :: "rb_error + ID \<Rightarrow> ID \<Rightarrow> rb_error + bool" where
  "is_id x y = (case x of Inl e \<Rightarrow> Inl e | Inr i \<Rightarrow> Inr (i = y))"

text \<open>\<^verbatim>\<open>a || b\<close>: the right operand is evaluated only when the left one is false.\<close>

definition lor :: "rb_error + bool \<Rightarrow> rb_error + bool \<Rightarrow> rb_error + bool" where
  "lor a b = (case a of Inl e \<Rightarrow> Inl e | Inr t \<Rightarrow> if t then Inr True else b)"

definition if_else :: "rb_error + bool \<Rightarrow> 'a flow \<Rightarrow> 'a flow \<Rightarrow> 'a flow" where
  "if_else c s t = (case c of Inl e \<Rightarrow> Raise e | Inr b \<Rightarrow> if b then s else t)"

definition seq :: "'a flow \<Rightarrow> 'a flow \<Rightarrow> 'a flow" where
  "seq s t = (case s of Next \<Rightarrow> t | Return v \<Rightarrow> Return v | Raise e \<Rightarrow> Raise e)"

text \<open>A body made of the statement \<open>s\<close> followed by a final \<^verbatim>\<open>return d;\<close>.\<close>

definition then_return :: "'a flow \<Rightarrow> 'a \<Rightarrow> rb_error + 'a" where
  "then_return s d = (case s of Return v \<Rightarrow> Inr v | Raise e \<Rightarrow> Inl e | Next \<Rightarrow> Inr d)"

section \<open>The translators\<close>

definition blas_transpose_sym :: "VALUE \<Rightarrow> rb_error + CBLAS_TRANSPOSE" where
  "blas_transpose_sym op =
     then_return
       (if_else (lor (is_value op Qfalse) (is_id (rb_to_id op) nm_rb_no_transpose))
          (Return CblasNoTrans)
          (if_else (is_id (rb_to_id op) nm_rb_transpose)
             (Return CblasTrans)
             (if_else (is_id (rb_to_id op) nm_rb_complex_conjugate)
                (Return CblasConjTrans)
                (rb_raise rb_eArgError ''Expected false, :transpose, or :complex_conjugate''))))
       CblasNoTrans"

definition lapacke_transpose_sym :: "VALUE \<Rightarrow> rb_error + char" where
  "lapacke_transpose_sym op =
     then_return
       (if_else (lor (is_value op Qfalse) (is_id (rb_to_id op) nm_rb_no_transpose))
          (Return CHR ''N'')
          (if_else (is_id (rb_to_id op) nm_rb_transpose)
             (Return CHR ''T'')
             (if_else (is_id (rb_to_id op) nm_rb_complex_conjugate)
                (Return CHR ''C'')
                (rb_raise rb_eArgError ''Expected false, :transpose, or :complex_conjugate''))))
       CHR ''N''"

definition blas_side_sym :: "VALUE \<Rightarrow> rb_error + CBLAS_SIDE" where
  "blas_side_sym op =
     (case rb_to_id op of
        Inl e \<Rightarrow> Inl e
      | Inr op_id \<Rightarrow>
          then_return
            (seq (if_else (Inr (op_id = nm_rb_left)) (Return CblasLeft) Next)
            (seq (if_else (Inr (op_id = nm_rb_right)) (Return CblasRight) Next)
                 (rb_raise rb_eArgError ''Expected :left or :right for side argument'')))
            CblasLeft)"

definition blas_uplo_sym :: "VALUE \<Rightarrow> rb_error + CBLAS_UPLO" where
  "blas_uplo_sym op =
     (case rb_to_id op of
        Inl e \<Rightarrow> Inl e
      | Inr op_id \<Rightarrow>
          then_return
            (seq (if_else (Inr (op_id = nm_rb_upper)) (Return CblasUpper) Next)
            (seq (if_else (Inr (op_id = nm_rb_lower)) (Return CblasLower) Next)
                 (rb_raise rb_eArgError ''Expected :upper or :lower for uplo argument'')))
            CblasUpper)"

definition lapacke_uplo_sym :: "VALUE \<Rightarrow> rb_error + char" where
  "lapacke_uplo_sym op =
     (case rb_to_id op of
        Inl e \<Rightarrow> Inl e
      | Inr op_id \<Rightarrow>
          then_return
            (seq (if_else (Inr (op_id = nm_rb_upper)) (Return CHR ''U'') Next)
            (seq (if_else (Inr (op_id = nm_rb_lower)) (Return CHR ''L'') Next)
                 (rb_raise rb_eArgError ''Expected :upper or :lower for uplo argument'')))
            CHR ''U'')"

definition blas_diag_sym :: "VALUE \<Rightarrow> rb_error + CBLAS_DIAG" where
  "blas_diag_sym op =
     then_return
       (if_else (lor (is_id (rb_to_id op) nm_rb_unit) (is_value op Qtrue))
          (Return CblasUnit)
          Next)
       CblasNonUnit"

definition blas_order_sym :: "VALUE \<Rightarrow> rb_error + CBLAS_ORDER" where
  "blas_order_sym op =
     then_return
       (seq
          (if_else (lor (is_id (rb_to_id op) (rb_intern ''row''))
                        (is_id (rb_to_id op) (rb_intern ''row_major'')))
             (Return CblasRowMajor)
             (if_else (lor (lor (lor (is_id (rb_to_id op) (rb_intern ''col''))
                                     (is_id (rb_to_id op) (rb_intern ''col_major'')))
                                (is_id (rb_to_id op) (rb_intern ''column'')))
                           (is_id (rb_to_id op) (rb_intern ''column_major'')))
                (Return CblasColMajor)
                Next))
          (rb_raise rb_eArgError ''Expected :row or :col for order argument''))
       CblasRowMajor"

text \<open>
  The \<^verbatim>\<open>if\<close>/\<^verbatim>\<open>else if\<close> chain of \<^verbatim>\<open>lapack_svd_job_sym\<close>, without the \<^verbatim>\<open>return 'a';\<close>
  that follows it.
\<close>

definition lapack_svd_job_sym_chain :: "VALUE \<Rightarrow> char flow" where
  "lapack_svd_job_sym_chain op =
     if_else (lor (is_id (rb_to_id op) (rb_intern ''all''))
                  (is_id (rb_to_id op) (rb_intern ''a'')))
       (Return CHR ''A'')
       (if_else (lor (is_id (rb_to_id op) (rb_intern ''return''))
                     (is_id (rb_to_id op) (rb_intern ''s'')))
          (Return CHR ''S'')
          (if_else (lor (is_id (rb_to_id op) (rb_intern ''overwrite''))
                        (is_id (rb_to_id op) (rb_intern ''o'')))
             (Return CHR ''O'')
             (if_else (lor (is_id (rb_to_id op) (rb_intern ''none''))
                           (is_id (rb_to_id op) (rb_intern ''n'')))
                (Return CHR ''N'')
                (rb_raise rb_eArgError
                   ''Expected :all, :return, :overwrite, :none (or :a, :s, :o, :n, respectively)''))))"

definition lapack_svd_job_sym :: "VALUE \<Rightarrow> rb_error + char" where
  "lapack_svd_job_sym op = then_return (lapack_svd_job_sym_chain op) CHR ''a''"

text \<open>Both branches of the only statement of \<^verbatim>\<open>lapack_evd_job_sym\<close> return.\<close>

definition lapack_evd_job_sym :: "VALUE \<Rightarrow> rb_error + char" where
  "lapack_evd_job_sym op =
     (case lor (lor (is_value op Qfalse) (is_value op Qnil))
               (is_id (rb_to_id op) (rb_intern ''n'')) of
        Inl e \<Rightarrow> Inl e
      | Inr b \<Rightarrow> if b then Inr CHR ''N'' else Inr CHR ''V'')"

section \<open>Reading an outcome\<close>

definition is_ArgumentError :: "rb_error + 'a \<Rightarrow> bool" where
  "is_ArgumentError r = (case r of Inl (rb_eArgError msg) \<Rightarrow> True | _ \<Rightarrow> False)"

text \<open>\<open>mentions msg w\<close>: the word \<open>w\<close> occurs in the message \<open>msg\<close>.\<close>

fun mentions :: "string \<Rightarrow> string \<Rightarrow> bool" where
  "mentions [] w = (w = [])"
| "mentions (c # cs) w = (take (length w) (c # cs) = w \<or> mentions cs w)"


section \<open>Unfolding the model\<close>

lemmas control_defs =
  then_return_def if_else_def seq_def lor_def is_id_def is_value_def rb_raise_def

lemmas id_defs =
  rb_intern_def nm_rb_no_transpose_def nm_rb_transpose_def nm_rb_complex_conjugate_def
  nm_rb_left_def nm_rb_right_def nm_rb_upper_def nm_rb_lower_def nm_rb_unit_def

text \<open>What the conversion tells about its argument.\<close>

lemma rb_to_id_Inr_cases:
  assumes "rb_to_id op = Inr i"
  shows "op \<noteq> Qfalse" and "op \<noteq> Qtrue" and "op \<noteq> Qnil"
  using assms by (cases op; simp)+

lemma rb_to_id_Inl_TypeError:
  "rb_to_id op = Inl e \<Longrightarrow> e = rb_eTypeError"
  by (induction op rule: rb_to_id.induct) simp_all

section \<open>Transpose mode\<close>

lemma blas_transpose_sym_Qfalse: "blas_transpose_sym Qfalse = Inr CblasNoTrans"
  by (simp add: blas_transpose_sym_def control_defs)

lemma lapacke_transpose_sym_Qfalse: "lapacke_transpose_sym Qfalse = Inr CHR ''N''"
  by (simp add: lapacke_transpose_sym_def control_defs)

lemma blas_transpose_sym_Inl:
  "op \<noteq> Qfalse \<Longrightarrow> rb_to_id op = Inl e \<Longrightarrow> blas_transpose_sym op = Inl e"
  by (simp add: blas_transpose_sym_def control_defs)

lemma lapacke_transpose_sym_Inl:
  "op \<noteq> Qfalse \<Longrightarrow> rb_to_id op = Inl e \<Longrightarrow> lapacke_transpose_sym op = Inl e"
  by (simp add: lapacke_transpose_sym_def control_defs)

lemma blas_transpose_sym_Inr:
  "rb_to_id op = Inr i \<Longrightarrow>
   blas_transpose_sym op =
     (if i = ''no_transpose'' then Inr CblasNoTrans
      else if i = ''transpose'' then Inr CblasTrans
      else if i = ''complex_conjugate'' then Inr CblasConjTrans
      else Inl (rb_eArgError ''Expected false, :transpose, or :complex_conjugate''))"
  by (simp add: blas_transpose_sym_def control_defs id_defs rb_to_id_Inr_cases)

lemma lapacke_transpose_sym_Inr:
  "rb_to_id op = Inr i \<Longrightarrow>
   lapacke_transpose_sym op =
     (if i = ''no_transpose'' then Inr CHR ''N''
      else if i = ''transpose'' then Inr CHR ''T''
      else if i = ''complex_conjugate'' then Inr CHR ''C''
      else Inl (rb_eArgError ''Expected false, :transpose, or :complex_conjugate''))"
  by (simp add: lapacke_transpose_sym_def control_defs id_defs rb_to_id_Inr_cases)

text \<open>
  C1 (as amended). Both transpose translators are determined by three cases. Boolean
  \<^verbatim>\<open>false\<close> yields \<open>CblasNoTrans\<close> and \<open>N\<close>. Any other input that \<^verbatim>\<open>rb_to_id\<close> cannot
  convert (\<^verbatim>\<open>nil\<close>, \<^verbatim>\<open>true\<close>, a number) fails with the \<^verbatim>\<open>TypeError\<close> of the conversion. A
  symbol or string yields \<open>CblasNoTrans\<close> and \<open>N\<close> for \<^verbatim>\<open>no_transpose\<close>, \<open>CblasTrans\<close> and
  \<open>T\<close> for \<^verbatim>\<open>transpose\<close>, \<open>CblasConjTrans\<close> and \<open>C\<close> for \<^verbatim>\<open>complex_conjugate\<close>, and for
  every other name fails with an \<^verbatim>\<open>ArgumentError\<close> whose message names \<^verbatim>\<open>false\<close>,
  \<^verbatim>\<open>:transpose\<close> and \<^verbatim>\<open>:complex_conjugate\<close>.
\<close>

theorem transpose_sym_complete:
  "blas_transpose_sym op =
     (if op = Qfalse then Inr CblasNoTrans
      else case rb_to_id op of
        Inl e \<Rightarrow> Inl rb_eTypeError
      | Inr i \<Rightarrow>
          if i = ''no_transpose'' then Inr CblasNoTrans
          else if i = ''transpose'' then Inr CblasTrans
          else if i = ''complex_conjugate'' then Inr CblasConjTrans
          else Inl (rb_eArgError ''Expected false, :transpose, or :complex_conjugate''))
   \<and> lapacke_transpose_sym op =
     (if op = Qfalse then Inr CHR ''N''
      else case rb_to_id op of
        Inl e \<Rightarrow> Inl rb_eTypeError
      | Inr i \<Rightarrow>
          if i = ''no_transpose'' then Inr CHR ''N''
          else if i = ''transpose'' then Inr CHR ''T''
          else if i = ''complex_conjugate'' then Inr CHR ''C''
          else Inl (rb_eArgError ''Expected false, :transpose, or :complex_conjugate''))
   \<and> mentions ''Expected false, :transpose, or :complex_conjugate'' ''false''
   \<and> mentions ''Expected false, :transpose, or :complex_conjugate'' '':transpose''
   \<and> mentions ''Expected false, :transpose, or :complex_conjugate'' '':complex_conjugate''"
proof (cases "op = Qfalse")
  case True
  then show ?thesis
    by (simp add: blas_transpose_sym_Qfalse lapacke_transpose_sym_Qfalse)
next
  case False
  show ?thesis
  proof (cases "rb_to_id op")
    case (Inl e)
    with False rb_to_id_Inl_TypeError [OF Inl] show ?thesis
      by (simp add: blas_transpose_sym_Inl lapacke_transpose_sym_Inl)
  next
    case (Inr i)
    with False show ?thesis
      by (simp add: blas_transpose_sym_Inr lapacke_transpose_sym_Inr)
  qed
qed

text \<open>
  C1 as stated fails: boolean \<^verbatim>\<open>true\<close> is outside the vocabulary, and neither translator
  answers it with an \<^verbatim>\<open>ArgumentError\<close>; the conversion raises \<^verbatim>\<open>TypeError\<close> first.
\<close>

theorem transpose_sym_true_counterexample:
  "blas_transpose_sym Qtrue = Inl rb_eTypeError
   \<and> lapacke_transpose_sym Qtrue = Inl rb_eTypeError
   \<and> \<not> is_ArgumentError (blas_transpose_sym Qtrue)
   \<and> \<not> is_ArgumentError (lapacke_transpose_sym Qtrue)"
  by (simp add: blas_transpose_sym_def lapacke_transpose_sym_def control_defs is_ArgumentError_def)


section \<open>Unit diagonal\<close>

text \<open>
  C2 (the code at the failing inputs). \<^verbatim>\<open>blas_diag_sym\<close> evaluates \<^verbatim>\<open>rb_to_id(op)\<close> before it
  compares \<^verbatim>\<open>op\<close> with \<^verbatim>\<open>Qtrue\<close>, so boolean \<^verbatim>\<open>true\<close> raises \<^verbatim>\<open>TypeError\<close> instead of
  yielding \<open>CblasUnit\<close>, and boolean \<^verbatim>\<open>false\<close> raises \<^verbatim>\<open>TypeError\<close> instead of yielding
  \<open>CblasNonUnit\<close>.
\<close>

theorem blas_diag_sym_true_raises:
  "blas_diag_sym Qtrue = Inl rb_eTypeError \<and> blas_diag_sym Qtrue \<noteq> Inr CblasUnit
   \<and> blas_diag_sym Qfalse = Inl rb_eTypeError \<and> blas_diag_sym Qfalse \<noteq> Inr CblasNonUnit"
  by (simp add: blas_diag_sym_def control_defs)

section \<open>SVD job mode\<close>

text \<open>
  C3. For an input that converts to the name \<open>i\<close>, \<^verbatim>\<open>lapack_svd_job_sym\<close> yields \<open>A\<close> for
  \<^verbatim>\<open>all\<close> and \<^verbatim>\<open>a\<close>, \<open>S\<close> for \<^verbatim>\<open>return\<close> and \<^verbatim>\<open>s\<close>, \<open>O\<close> for \<^verbatim>\<open>overwrite\<close> and \<^verbatim>\<open>o\<close>,
  \<open>N\<close> for \<^verbatim>\<open>none\<close> and \<^verbatim>\<open>n\<close>, and for every other name, \<^verbatim>\<open>ALL\<close> among them, raises an
  \<^verbatim>\<open>ArgumentError\<close> whose message lists all eight spellings.
\<close>

theorem lapack_svd_job_sym_tokens:
  assumes "rb_to_id op = Inr i"
  shows "lapack_svd_job_sym op =
           (if i = ''all'' \<or> i = ''a'' then Inr CHR ''A''
            else if i = ''return'' \<or> i = ''s'' then Inr CHR ''S''
            else if i = ''overwrite'' \<or> i = ''o'' then Inr CHR ''O''
            else if i = ''none'' \<or> i = ''n'' then Inr CHR ''N''
            else Inl (rb_eArgError
              ''Expected :all, :return, :overwrite, :none (or :a, :s, :o, :n, respectively)''))
         \<and> map (\<lambda>name. lapack_svd_job_sym (T_SYMBOL name))
               [''all'', ''a'', ''return'', ''s'', ''overwrite'', ''o'', ''none'', ''n'']
             = map Inr ''AASSOONN''
         \<and> map (mentions
                 ''Expected :all, :return, :overwrite, :none (or :a, :s, :o, :n, respectively)'')
               ['':all,'', '':a,'', '':return,'', '':s,'', '':overwrite,'', '':o,'',
                '':none '', '':n,'']
             = [True, True, True, True, True, True, True, True]"
  using assms
  by (simp add: lapack_svd_job_sym_def lapack_svd_job_sym_chain_def control_defs id_defs)

theorem lapack_svd_job_sym_tokens_witness:
  "rb_to_id (T_SYMBOL ''ALL'') = Inr ''ALL''
   \<and> lapack_svd_job_sym (T_SYMBOL ''ALL'') =
       Inl (rb_eArgError
         ''Expected :all, :return, :overwrite, :none (or :a, :s, :o, :n, respectively)'')"
  using lapack_svd_job_sym_tokens [of "T_SYMBOL ''ALL''" "''ALL''"]
  by (simp add: rb_intern_def)

section \<open>Storage order\<close>

text \<open>
  C4. \<^verbatim>\<open>blas_order_sym\<close> is determined on every input. An input that \<^verbatim>\<open>rb_to_id\<close> cannot
  convert (\<^verbatim>\<open>false\<close>, \<^verbatim>\<open>nil\<close>, \<^verbatim>\<open>true\<close>, a number) is never accepted: the \<^verbatim>\<open>TypeError\<close> of
  the conversion is the outcome. An input that converts to the name \<open>i\<close> yields
  \<open>CblasRowMajor\<close> exactly for \<^verbatim>\<open>row\<close> and \<^verbatim>\<open>row_major\<close>, \<open>CblasColMajor\<close> exactly for
  \<^verbatim>\<open>col\<close>, \<^verbatim>\<open>col_major\<close>, \<^verbatim>\<open>column\<close> and \<^verbatim>\<open>column_major\<close>, and for every other name,
  \<^verbatim>\<open>diagonal\<close> among them, raises an \<^verbatim>\<open>ArgumentError\<close> whose message names \<^verbatim>\<open>:row\<close> and
  \<^verbatim>\<open>:col\<close>. The two results are distinct, as constants and as numbers.
\<close>

theorem blas_order_sym_complete:
  "blas_order_sym op =
     (case rb_to_id op of
        Inl e \<Rightarrow> Inl rb_eTypeError
      | Inr i \<Rightarrow>
          if i = ''row'' \<or> i = ''row_major'' then Inr CblasRowMajor
          else if i = ''col'' \<or> i = ''col_major'' \<or> i = ''column'' \<or> i = ''column_major''
            then Inr CblasColMajor
          else Inl (rb_eArgError ''Expected :row or :col for order argument''))
   \<and> blas_order_sym (T_SYMBOL ''diagonal'') =
       Inl (rb_eArgError ''Expected :row or :col for order argument'')
   \<and> blas_order_sym Qfalse = Inl rb_eTypeError
   \<and> CblasRowMajor \<noteq> CblasColMajor
   \<and> CBLAS_ORDER_value CblasRowMajor \<noteq> CBLAS_ORDER_value CblasColMajor
   \<and> mentions ''Expected :row or :col for order argument'' '':row''
   \<and> mentions ''Expected :row or :col for order argument'' '':col''"
proof (cases "rb_to_id op")
  case (Inl e)
  with rb_to_id_Inl_TypeError [OF Inl] show ?thesis
    by (simp add: blas_order_sym_def control_defs id_defs)
next
  case (Inr i)
  then show ?thesis
    by (simp add: blas_order_sym_def control_defs id_defs)
qed

section \<open>Eigen-decomposition job mode\<close>

text \<open>
  C5 (as amended). \<^verbatim>\<open>lapack_evd_job_sym\<close> yields \<open>N\<close> for \<^verbatim>\<open>nil\<close>, for boolean \<^verbatim>\<open>false\<close> and
  for the name \<^verbatim>\<open>n\<close>, and \<open>V\<close> for every other symbol or string, \<^verbatim>\<open>yes\<close> and \<^verbatim>\<open>compute\<close>
  among them. It is not total: any other input that \<^verbatim>\<open>rb_to_id\<close> cannot convert fails
  with the \<^verbatim>\<open>TypeError\<close> of the conversion.
\<close>

theorem lapack_evd_job_sym_complete:
  "lapack_evd_job_sym op =
     (if op = Qfalse \<or> op = Qnil then Inr CHR ''N''
      else case rb_to_id op of
        Inl e \<Rightarrow> Inl rb_eTypeError
      | Inr i \<Rightarrow> if i = ''n'' then Inr CHR ''N'' else Inr CHR ''V'')
   \<and> lapack_evd_job_sym (T_SYMBOL ''yes'') = Inr CHR ''V''
   \<and> lapack_evd_job_sym (T_SYMBOL ''compute'') = Inr CHR ''V''"
proof (cases "rb_to_id op")
  case (Inl e)
  with rb_to_id_Inl_TypeError [OF Inl] show ?thesis
    by (simp add: lapack_evd_job_sym_def control_defs id_defs)
next
  case (Inr i)
  with rb_to_id_Inr_cases [OF Inr] show ?thesis
    by (simp add: lapack_evd_job_sym_def control_defs id_defs)
qed

text \<open>
  C5 as stated fails: boolean \<^verbatim>\<open>true\<close> is an input other than \<^verbatim>\<open>nil\<close>, \<^verbatim>\<open>false\<close> and \<^verbatim>\<open>n\<close>,
  and it raises instead of yielding \<open>V\<close>.
\<close>

theorem lapack_evd_job_sym_true_counterexample:
  "lapack_evd_job_sym Qtrue = Inl rb_eTypeError \<and> lapack_evd_job_sym Qtrue \<noteq> Inr CHR ''V''"
  by (simp add: lapack_evd_job_sym_def control_defs)

section \<open>Absent transpose mode\<close>

text \<open>
  C6 (as amended). In both transpose translators boolean \<^verbatim>\<open>false\<close> yields the result of
  the token \<^verbatim>\<open>no_transpose\<close>, \<open>CblasNoTrans\<close> and \<open>N\<close>, with no error; \<^verbatim>\<open>nil\<close> is not a
  synonym and fails with the \<^verbatim>\<open>TypeError\<close> of the conversion.
\<close>

theorem transpose_sym_false_not_nil:
  "blas_transpose_sym Qfalse = blas_transpose_sym (T_SYMBOL ''no_transpose'')
   \<and> blas_transpose_sym Qfalse = Inr CblasNoTrans
   \<and> lapacke_transpose_sym Qfalse = lapacke_transpose_sym (T_SYMBOL ''no_transpose'')
   \<and> lapacke_transpose_sym Qfalse = Inr CHR ''N''
   \<and> blas_transpose_sym Qnil = Inl rb_eTypeError
   \<and> lapacke_transpose_sym Qnil = Inl rb_eTypeError"
  by (simp add: blas_transpose_sym_def lapacke_transpose_sym_def control_defs id_defs)

text \<open>
  C6 as stated fails: on \<^verbatim>\<open>nil\<close> neither translator gives the result it gives on
  \<^verbatim>\<open>no_transpose\<close>.
\<close>

theorem transpose_sym_nil_counterexample:
  "blas_transpose_sym Qnil \<noteq> blas_transpose_sym (T_SYMBOL ''no_transpose'')
   \<and> blas_transpose_sym Qnil \<noteq> Inr CblasNoTrans
   \<and> lapacke_transpose_sym Qnil \<noteq> lapacke_transpose_sym (T_SYMBOL ''no_transpose'')
   \<and> lapacke_transpose_sym Qnil \<noteq> Inr CHR ''N''"
  by (simp add: blas_transpose_sym_def lapacke_transpose_sym_def control_defs id_defs)

section \<open>Triangular region\<close>

text \<open>
  C7. For an input that converts to the name \<open>i\<close>, \<^verbatim>\<open>upper\<close> yields \<open>CblasUpper\<close> from
  \<^verbatim>\<open>blas_uplo_sym\<close> and \<open>U\<close> from \<^verbatim>\<open>lapacke_uplo_sym\<close>, \<^verbatim>\<open>lower\<close> yields \<open>CblasLower\<close> and
  \<open>L\<close>, and every other name makes both raise an \<^verbatim>\<open>ArgumentError\<close> whose message names
  \<^verbatim>\<open>:upper\<close> and \<^verbatim>\<open>:lower\<close>.
\<close>

theorem uplo_sym_tokens:
  assumes "rb_to_id op = Inr i"
  shows "blas_uplo_sym op =
           (if i = ''upper'' then Inr CblasUpper
            else if i = ''lower'' then Inr CblasLower
            else Inl (rb_eArgError ''Expected :upper or :lower for uplo argument''))
         \<and> lapacke_uplo_sym op =
           (if i = ''upper'' then Inr CHR ''U''
            else if i = ''lower'' then Inr CHR ''L''
            else Inl (rb_eArgError ''Expected :upper or :lower for uplo argument''))
         \<and> mentions ''Expected :upper or :lower for uplo argument'' '':upper''
         \<and> mentions ''Expected :upper or :lower for uplo argument'' '':lower''"
  using assms
  by (simp add: blas_uplo_sym_def lapacke_uplo_sym_def control_defs id_defs)

theorem uplo_sym_tokens_witness:
  "rb_to_id (T_SYMBOL ''diagonal'') = Inr ''diagonal''
   \<and> blas_uplo_sym (T_SYMBOL ''diagonal'') =
       Inl (rb_eArgError ''Expected :upper or :lower for uplo argument'')
   \<and> lapacke_uplo_sym (T_SYMBOL ''diagonal'') =
       Inl (rb_eArgError ''Expected :upper or :lower for uplo argument'')
   \<and> rb_to_id (T_SYMBOL ''upper'') = Inr ''upper''
   \<and> blas_uplo_sym (T_SYMBOL ''upper'') = Inr CblasUpper
   \<and> lapacke_uplo_sym (T_SYMBOL ''upper'') = Inr CHR ''U''"
  using uplo_sym_tokens [of "T_SYMBOL ''diagonal''" "''diagonal''"]
        uplo_sym_tokens [of "T_SYMBOL ''upper''" "''upper''"]
  by (simp add: rb_intern_def)

section \<open>Side\<close>

text \<open>
  C8 (as amended). \<^verbatim>\<open>blas_side_sym\<close> accepts exactly the names \<^verbatim>\<open>left\<close> (\<open>CblasLeft\<close>) and
  \<^verbatim>\<open>right\<close> (\<open>CblasRight\<close>). Every other symbol or string, \<^verbatim>\<open>top\<close> among them, fails with
  an \<^verbatim>\<open>ArgumentError\<close> whose message names \<^verbatim>\<open>:left\<close> and \<^verbatim>\<open>:right\<close>. Boolean \<^verbatim>\<open>false\<close> is
  no synonym either, but like every input that \<^verbatim>\<open>rb_to_id\<close> cannot convert it fails with
  the \<^verbatim>\<open>TypeError\<close> of the conversion.
\<close>

theorem blas_side_sym_complete:
  "blas_side_sym op =
     (case rb_to_id op of
        Inl e \<Rightarrow> Inl rb_eTypeError
      | Inr i \<Rightarrow>
          if i = ''left'' then Inr CblasLeft
          else if i = ''right'' then Inr CblasRight
          else Inl (rb_eArgError ''Expected :left or :right for side argument''))
   \<and> blas_side_sym (T_SYMBOL ''top'') =
       Inl (rb_eArgError ''Expected :left or :right for side argument'')
   \<and> blas_side_sym Qfalse = Inl rb_eTypeError
   \<and> mentions ''Expected :left or :right for side argument'' '':left''
   \<and> mentions ''Expected :left or :right for side argument'' '':right''"
proof (cases "rb_to_id op")
  case (Inl e)
  with rb_to_id_Inl_TypeError [OF Inl] show ?thesis
    by (simp add: blas_side_sym_def control_defs id_defs)
next
  case (Inr i)
  then show ?thesis
    by (simp add: blas_side_sym_def control_defs id_defs)
qed

text \<open>
  C8 as stated fails: the error that boolean \<^verbatim>\<open>false\<close> raises is not an
  \<^verbatim>\<open>ArgumentError\<close>.
\<close>

theorem blas_side_sym_false_counterexample:
  "blas_side_sym Qfalse = Inl rb_eTypeError \<and> \<not> is_ArgumentError (blas_side_sym Qfalse)"
  by (simp add: blas_side_sym_def is_ArgumentError_def)

section \<open>The fallback of the SVD job translator\<close>

text \<open>
  C9. The \<^verbatim>\<open>if\<close>/\<^verbatim>\<open>else if\<close> chain of \<^verbatim>\<open>lapack_svd_job_sym\<close> never passes control on to the
  statement after it, so the trailing \<^verbatim>\<open>return 'a';\<close> is never executed and the lowercase
  \<open>a\<close> is never the result; a result that is returned is one of \<open>A\<close>, \<open>S\<close>, \<open>O\<close>, \<open>N\<close>.
\<close>

theorem lapack_svd_job_sym_fallback_unreachable:
  "lapack_svd_job_sym_chain op \<noteq> Next
   \<and> lapack_svd_job_sym op \<noteq> Inr CHR ''a''
   \<and> (lapack_svd_job_sym op = Inr c \<longrightarrow> c \<in> {CHR ''A'', CHR ''S'', CHR ''O'', CHR ''N''})"
  by (cases "rb_to_id op")
     (auto simp add: lapack_svd_job_sym_def lapack_svd_job_sym_chain_def control_defs id_defs
           split: if_splits)

theorem lapack_svd_job_sym_fallback_unreachable_witness:
  "lapack_svd_job_sym (T_STRING ''overwrite'') = Inr CHR ''O''
   \<and> CHR ''O'' \<in> {CHR ''A'', CHR ''S'', CHR ''O'', CHR ''N''}
   \<and> lapack_svd_job_sym_chain (T_STRING ''overwrite'') \<noteq> Next"
  using lapack_svd_job_sym_fallback_unreachable [of "T_STRING ''overwrite''" "CHR ''O''"]
  by (simp add: lapack_svd_job_sym_def lapack_svd_job_sym_chain_def control_defs id_defs)

section \<open>Conversion before comparison\<close>

text \<open>
  C10. In \<^verbatim>\<open>blas_side_sym\<close>, \<^verbatim>\<open>blas_uplo_sym\<close>, \<^verbatim>\<open>lapacke_uplo_sym\<close> and \<^verbatim>\<open>blas_diag_sym\<close>
  the input goes through \<^verbatim>\<open>rb_to_id\<close> before anything is compared: whenever the conversion
  fails, its error is a \<^verbatim>\<open>TypeError\<close> and it is the outcome of the translator, which
  reaches neither its \<^verbatim>\<open>ArgumentError\<close> nor a default result.
\<close>

theorem conversion_fails_first:
  assumes "rb_to_id op = Inl e"
  shows "e = rb_eTypeError
         \<and> blas_side_sym op = Inl rb_eTypeError
         \<and> blas_uplo_sym op = Inl rb_eTypeError
         \<and> lapacke_uplo_sym op = Inl rb_eTypeError
         \<and> blas_diag_sym op = Inl rb_eTypeError"
  using assms rb_to_id_Inl_TypeError [OF assms]
  by (simp add: blas_side_sym_def blas_uplo_sym_def lapacke_uplo_sym_def blas_diag_sym_def
        control_defs)

theorem conversion_fails_first_witness:
  "rb_to_id Qfalse = Inl rb_eTypeError
   \<and> blas_side_sym Qfalse = Inl rb_eTypeError
   \<and> blas_uplo_sym Qfalse = Inl rb_eTypeError
   \<and> lapacke_uplo_sym Qfalse = Inl rb_eTypeError
   \<and> blas_diag_sym Qfalse = Inl rb_eTypeError
   \<and> rb_to_id Qtrue = Inl rb_eTypeError
   \<and> blas_side_sym Qtrue = Inl rb_eTypeError
   \<and> blas_uplo_sym Qtrue = Inl rb_eTypeError
   \<and> blas_diag_sym Qtrue = Inl rb_eTypeError
   \<and> rb_to_id Qnil = Inl rb_eTypeError
   \<and> blas_side_sym Qnil = Inl rb_eTypeError
   \<and> blas_uplo_sym Qnil = Inl rb_eTypeError
   \<and> blas_diag_sym Qnil = Inl rb_eTypeError
   \<and> rb_to_id (T_FIXNUM 3) = Inl rb_eTypeError
   \<and> blas_side_sym (T_FIXNUM 3) = Inl rb_eTypeError
   \<and> blas_uplo_sym (T_FIXNUM 3) = Inl rb_eTypeError
   \<and> blas_diag_sym (T_FIXNUM 3) = Inl rb_eTypeError"
  using conversion_fails_first [of Qfalse rb_eTypeError]
        conversion_fails_first [of Qtrue rb_eTypeError]
        conversion_fails_first [of Qnil rb_eTypeError]
        conversion_fails_first [of "T_FIXNUM 3" rb_eTypeError]
  by simp

end
